theory Spec2Isabelle
  imports Complex_Main "HOL-Library.Word" "HOL-Library.Sublist"
begin

section \<open>JavaScript strings\<close>

text \<open>
  A JavaScript string is a sequence of UTF-16 code units. The Korean literals of the
  source are written out as their code units; \<open>ascii\<close> embeds the ASCII ones.
\<close>

type_synonym code_unit = "16 word"
type_synonym jsstring = "code_unit list"

definition ascii :: "string \<Rightarrow> jsstring" where
  "ascii s = map of_char s"

text \<open>
  \<^verbatim>\<open>String.prototype.trim\<close> removes, at both ends, the code units that ECMAScript calls
  WhiteSpace or LineTerminator.
\<close>

definition is_ws :: "code_unit \<Rightarrow> bool" where
  "is_ws c \<longleftrightarrow>
     c = 0x0009 \<or> c = 0x000A \<or> c = 0x000B \<or> c = 0x000C \<or> c = 0x000D \<or> c = 0x0020 \<or>
     c = 0x00A0 \<or> c = 0x1680 \<or> (0x2000 \<le> c \<and> c \<le> 0x200A) \<or> c = 0x2028 \<or>
     c = 0x2029 \<or> c = 0x202F \<or> c = 0x205F \<or> c = 0x3000 \<or> c = 0xFEFF"

definition trim :: "jsstring \<Rightarrow> jsstring" where
  "trim s = rev (dropWhile is_ws (rev (dropWhile is_ws s)))"

text \<open>
  \<^verbatim>\<open>String.prototype.toUpperCase\<close> maps every code point through the Unicode upper-case
  mapping. On a string of ASCII code units that is: a-z to A-Z, everything else
  unchanged. On any other string the result comes from the Unicode tables of the
  runtime, which the model takes as the parameter \<open>unicode_upper\<close>.
\<close>

definition is_ascii :: "code_unit \<Rightarrow> bool" where
  "is_ascii c \<longleftrightarrow> c < 0x0080"

definition ascii_upper :: "code_unit \<Rightarrow> code_unit" where
  "ascii_upper c = (if 0x0061 \<le> c \<and> c \<le> 0x007A then c - 0x0020 else c)"

definition toUpperCase :: "(jsstring \<Rightarrow> jsstring) \<Rightarrow> jsstring \<Rightarrow> jsstring" where
  "toUpperCase unicode_upper s =
     (if list_all is_ascii s then map ascii_upper s else unicode_upper s)"

text \<open>\<^verbatim>\<open>String.prototype.includes\<close>: the argument occurs as a contiguous run of code units.\<close>

fun includes_str :: "jsstring \<Rightarrow> jsstring \<Rightarrow> bool" where
  "includes_str [] t = (t = [])"
| "includes_str (c # cs) t = (prefix t (c # cs) \<or> includes_str cs t)"

text \<open>\<^verbatim>\<open>Array.prototype.join\<close> on an array of strings.\<close>

fun join :: "jsstring \<Rightarrow> jsstring list \<Rightarrow> jsstring" where
  "join sep [] = []"
| "join sep [x] = x"
| "join sep (x # y # ys) = x @ sep @ join sep (y # ys)"

section \<open>JavaScript values that come out of JSON\<close>

text \<open>
  Every value the two programs inspect was produced by a JSON parser (the request body,
  the completion of the SDK, the model's output, the response body read by the page), so
  it is a JSON value; \<open>None\<close> of type \<open>json option\<close> is \<^verbatim>\<open>undefined\<close>. A number is a
  double: a rational, the negative zero that \<^verbatim>\<open>-0\<close> parses to, or an infinity where the
  literal overflowed.
\<close>

datatype jsnumber = Finite rat | NegZero | PosInfinity | NegInfinity

datatype json =
    JNull
  | JBool bool
  | JNum jsnumber
  | JStr jsstring
  | JArr "json list"
  | JObj "(jsstring \<times> json) list"

text \<open>
  \<^verbatim>\<open>JSON.stringify\<close> writes an infinity as \<^verbatim>\<open>null\<close> and the negative zero as \<^verbatim>\<open>0\<close>; everything
  else in a value that came out of a JSON parser is written so that it reads back as
  itself. \<open>serialise v\<close> is the value that the text \<^verbatim>\<open>JSON.stringify(v)\<close> denotes.
\<close>

primrec serialise :: "json \<Rightarrow> json" where
  "serialise JNull = JNull"
| "serialise (JBool b) = JBool b"
| "serialise (JNum n) =
     (case n of Finite q \<Rightarrow> JNum (Finite q) | NegZero \<Rightarrow> JNum (Finite 0)
      | PosInfinity \<Rightarrow> JNull | NegInfinity \<Rightarrow> JNull)"
| "serialise (JStr s) = JStr s"
| "serialise (JArr xs) = JArr (map serialise xs)"
| "serialise (JObj ps) = JObj (map (map_prod id serialise) ps)"

text \<open>
  What a \<^verbatim>\<open>throw\<close> carries: the engine's own TypeError and SyntaxError (their messages are
  the engine's), the error with which the constructor of the OpenAI client refuses a
  missing key (its message is the SDK's), and any other \<^verbatim>\<open>Error\<close> with its message.
\<close>

datatype js_error = TypeError | SyntaxError | OpenAIError | Error jsstring

text \<open>ToBoolean, as used by \<^verbatim>\<open>!x\<close> and \<^verbatim>\<open>x && y\<close>.\<close>

fun truthy :: "json \<Rightarrow> bool" where
  "truthy JNull = False"
| "truthy (JBool b) = b"
| "truthy (JNum n) = (n \<noteq> Finite 0 \<and> n \<noteq> NegZero)"
| "truthy (JStr s) = (s \<noteq> [])"
| "truthy (JArr xs) = True"
| "truthy (JObj ps) = True"

text \<open>
  \<^verbatim>\<open>v.k\<close> for the keys the programs read (mbti, concern, choices, message, content, text,
  error, energyLevel): none of them is a property of a built-in prototype, so only an
  object that holds the key has it, and reading it from \<^verbatim>\<open>null\<close> throws.
\<close>

fun get_prop :: "json \<Rightarrow> jsstring \<Rightarrow> js_error + json option" where
  "get_prop JNull k = Inl TypeError"
| "get_prop (JObj ps) k = Inr (map_of ps k)"
| "get_prop v k = Inr None"

text \<open>\<^verbatim>\<open>v?.k\<close>: \<^verbatim>\<open>undefined\<close> when \<open>v\<close> is \<^verbatim>\<open>undefined\<close> or \<^verbatim>\<open>null\<close>.\<close>

fun opt_prop :: "json option \<Rightarrow> jsstring \<Rightarrow> json option" where
  "opt_prop None k = None"
| "opt_prop (Some (JObj ps)) k = map_of ps k"
| "opt_prop (Some v) k = None"

text \<open>\<^verbatim>\<open>v[0]\<close>: throws on \<^verbatim>\<open>undefined\<close> and \<^verbatim>\<open>null\<close>.\<close>

fun index0 :: "json option \<Rightarrow> js_error + json option" where
  "index0 None = Inl TypeError"
| "index0 (Some JNull) = Inl TypeError"
| "index0 (Some (JArr xs)) = Inr (case xs of [] \<Rightarrow> None | x # _ \<Rightarrow> Some x)"
| "index0 (Some (JStr s)) = Inr (case s of [] \<Rightarrow> None | c # _ \<Rightarrow> Some (JStr [c]))"
| "index0 (Some (JObj ps)) = Inr (map_of ps (ascii ''0''))"
| "index0 (Some v) = Inr None"

text \<open>
  \<^verbatim>\<open>v?.trim()\<close>: short-circuits on \<^verbatim>\<open>undefined\<close> and \<^verbatim>\<open>null\<close>, trims a string, and throws a
  TypeError on anything else, whose \<^verbatim>\<open>trim\<close> is not a function.
\<close>

fun opt_trim :: "json option \<Rightarrow> js_error + jsstring option" where
  "opt_trim None = Inr None"
| "opt_trim (Some JNull) = Inr None"
| "opt_trim (Some (JStr s)) = Inr (Some (trim s))"
| "opt_trim (Some v) = Inl TypeError"

section \<open>The fortune endpoint (src/app/api/fortune/route.ts)\<close>

subsection \<open>Literals\<close>

definition MSG_KEY_MISSING :: jsstring where
  \<comment> \<open>route.ts line 56: "OPENAI_API_KEY" followed by Korean for "is not configured."\<close>
  "MSG_KEY_MISSING =
     [0x004F, 0x0050, 0x0045, 0x004E, 0x0041, 0x0049, 0x005F, 0x0041, 0x0050, 0x0049, 0x005F,
     0x004B, 0x0045, 0x0059, 0xAC00, 0x0020, 0xC124, 0xC815, 0xB418, 0xC9C0, 0x0020, 0xC54A,
     0xC558, 0xC2B5, 0xB2C8, 0xB2E4, 0x002E]"

definition MSG_BODY_UNREADABLE :: jsstring where
  \<comment> \<open>route.ts line 66: Korean for "The request body cannot be read."\<close>
  "MSG_BODY_UNREADABLE =
     [0xC694, 0xCCAD, 0x0020, 0xBCF8, 0xBB38, 0xC744, 0x0020, 0xC77D, 0xC744, 0x0020, 0xC218,
     0x0020, 0xC5C6, 0xC2B5, 0xB2C8, 0xB2E4, 0x002E]"

definition MSG_MBTI_INVALID :: jsstring where
  \<comment> \<open>route.ts line 77: Korean for "Please choose a valid MBTI type."\<close>
  "MSG_MBTI_INVALID =
     [0xC720, 0xD6A8, 0xD55C, 0x0020, 0x004D, 0x0042, 0x0054, 0x0049, 0x0020, 0xC720, 0xD615,
     0xC744, 0x0020, 0xC120, 0xD0DD, 0xD574, 0x0020, 0xC8FC, 0xC138, 0xC694, 0x002E]"

definition MSG_GENERIC :: jsstring where
  \<comment> \<open>route.ts line 139: Korean for "A problem occurred while generating the fortune. Please try again in a moment."\<close>
  "MSG_GENERIC =
     [0xC810, 0xAD18, 0x0020, 0xC0DD, 0xC131, 0x0020, 0xC911, 0x0020, 0xBB38, 0xC81C, 0xAC00,
     0x0020, 0xBC1C, 0xC0DD, 0xD588, 0xC5B4, 0xC694, 0x002E, 0x0020, 0xC7A0, 0xC2DC, 0x0020,
     0xD6C4, 0x0020, 0xB2E4, 0xC2DC, 0x0020, 0xC2DC, 0xB3C4, 0xD574, 0x0020, 0xC8FC, 0xC138,
     0xC694, 0x002E]"

definition MSG_EMPTY_MODEL :: jsstring where
  \<comment> \<open>route.ts line 130: Korean for "The model response is empty."\<close>
  "MSG_EMPTY_MODEL =
     [0xBAA8, 0xB378, 0x0020, 0xC751, 0xB2F5, 0xC774, 0x0020, 0xBE44, 0xC5B4, 0x0020, 0xC788,
     0xC2B5, 0xB2C8, 0xB2E4, 0x002E]"

definition SYSTEM_PROMPT :: jsstring where
  \<comment> \<open>route.ts line 98: the system message (persona, answers in Korean)\<close>
  "SYSTEM_PROMPT =
     [0xB108, 0xB294, 0x0020, 0xAC10, 0xC131, 0xC801, 0xC778, 0x0020, 0x004D, 0x0042, 0x0054,
     0x0049, 0x0020, 0xAE30, 0xBC18, 0x0020, 0xC810, 0xC131, 0xC220, 0xAC00, 0xB2E4, 0x002E,
     0x0020, 0xBAA8, 0xB4E0, 0x0020, 0xB2F5, 0xBCC0, 0xC740, 0x0020, 0xC790, 0xC5F0, 0xC2A4,
     0xB7EC, 0xC6B4, 0x0020, 0xD55C, 0xAD6D, 0xC5B4, 0xB85C, 0x0020, 0xC791, 0xC131, 0xD558,
     0xACE0, 0x002C, 0x0020, 0xC0AC, 0xC6A9, 0xC790, 0xAC00, 0x0020, 0xBC14, 0xB85C, 0x0020,
     0xD589, 0xB3D9, 0xC73C, 0xB85C, 0x0020, 0xC62E, 0xAE38, 0x0020, 0xC218, 0x0020, 0xC788,
     0xB294, 0x0020, 0xC870, 0xC5B8, 0xC744, 0x0020, 0xC81C, 0xACF5, 0xD55C, 0xB2E4, 0x002E]"

definition PROMPT_SITUATION :: jsstring where
  \<comment> \<open>route.ts lines 102-103: line break, Korean for "situation", colon, space\<close>
  "PROMPT_SITUATION =
     [0x000A, 0xC0C1, 0xD669, 0x003A, 0x0020]"

definition DEFAULT_CONCERN :: jsstring where
  \<comment> \<open>route.ts line 103: Korean for "I did not write down any particular concern."\<close>
  "DEFAULT_CONCERN =
     [0xD2B9, 0xBCC4, 0xD55C, 0x0020, 0xACE0, 0xBBFC, 0xC740, 0x0020, 0xC801, 0xC9C0, 0x0020,
     0xC54A, 0xC558, 0xC5B4, 0xC694, 0x002E]"

definition PROMPT_RULES :: jsstring where
  \<comment> \<open>route.ts lines 103-108: the rest of the template literal (the mandatory rules)\<close>
  "PROMPT_RULES =
     [0x000A, 0x000A, 0xD544, 0xC218, 0x0020, 0xADDC, 0xCE59, 0x003A, 0x000A, 0x002D, 0x0020,
     0xACB0, 0xACFC, 0xB294, 0x0020, 0x004A, 0x0053, 0x004F, 0x004E, 0x0020, 0xD615, 0xC2DD,
     0xC73C, 0xB85C, 0xB9CC, 0x0020, 0xC791, 0xC131, 0x000A, 0x002D, 0x0020, 0x0061, 0x0063,
     0x0074, 0x0069, 0x006F, 0x006E, 0x0053, 0x0074, 0x0065, 0x0070, 0x0073, 0xB294, 0x0020,
     0x0033, 0xAC1C, 0xC758, 0x0020, 0xC9E7, 0xACE0, 0x0020, 0xC2E4, 0xCC9C, 0xC801, 0xC778,
     0x0020, 0xBB38, 0xC7A5, 0xC73C, 0xB85C, 0x0020, 0xAD6C, 0xC131, 0x000A, 0x002D, 0x0020,
     0x0065, 0x006E, 0x0065, 0x0072, 0x0067, 0x0079, 0x004C, 0x0065, 0x0076, 0x0065, 0x006C,
     0xC740, 0x0020, 0x0022, 0xB192, 0xC74C, 0x0022, 0x002C, 0x0020, 0x0022, 0xBCF4, 0xD1B5,
     0x0022, 0x002C, 0x0020, 0x0022, 0xB0AE, 0xC74C, 0x0022, 0x0020, 0xC911, 0x0020, 0xAC00,
     0xC7A5, 0x0020, 0xC5B4, 0xC6B8, 0xB9AC, 0xB294, 0x0020, 0xB2E8, 0xC5B4, 0x0020, 0xC0AC,
     0xC6A9]"

definition DESC_HEADLINE :: jsstring where
  \<comment> \<open>route.ts line 27\<close>
  "DESC_HEADLINE =
     [0xC810, 0xAD18, 0xB97C, 0x0020, 0xC694, 0xC57D, 0xD558, 0xB294, 0x0020, 0xD55C, 0x0020,
     0xC904, 0x0020, 0xD5E4, 0xB4DC, 0xB77C, 0xC778]"

definition DESC_FORTUNE :: jsstring where
  \<comment> \<open>route.ts line 31\<close>
  "DESC_FORTUNE =
     [0xC624, 0xB298, 0xC758, 0x0020, 0xD575, 0xC2EC, 0x0020, 0xC6B4, 0xC138, 0x0020, 0xC124,
     0xBA85]"

definition DESC_ACTION_STEPS :: jsstring where
  \<comment> \<open>route.ts line 39\<close>
  "DESC_ACTION_STEPS =
     [0xC2E4, 0xCC9C, 0x0020, 0xAC00, 0xB2A5, 0xD55C, 0x0020, 0xD589, 0xB3D9, 0x0020, 0xB8E8,
     0xD2F4, 0x0020, 0x0033, 0xB2E8, 0xACC4]"

definition DESC_LUCKY_ITEM :: jsstring where
  \<comment> \<open>route.ts line 43\<close>
  "DESC_LUCKY_ITEM =
     [0xC624, 0xB298, 0xC758, 0x0020, 0xD589, 0xC6B4, 0xC744, 0x0020, 0xB04C, 0xC5B4, 0xC62C,
     0x0020, 0xC544, 0xC774, 0xD15C]"

definition DESC_ENERGY_LEVEL :: jsstring where
  \<comment> \<open>route.ts line 47\<close>
  "DESC_ENERGY_LEVEL =
     [0xB192, 0xC74C, 0x002F, 0xBCF4, 0xD1B5, 0x002F, 0xB0AE, 0xC74C, 0x0020, 0xC911, 0x0020,
     0xD558, 0xB098]"

definition FORTUNE_SCHEMA :: json where
  "FORTUNE_SCHEMA = JObj
     [(ascii ''type'', JStr (ascii ''object'')),
      (ascii ''additionalProperties'', JBool False),
      (ascii ''properties'', JObj
        [(ascii ''headline'', JObj
           [(ascii ''type'', JStr (ascii ''string'')),
            (ascii ''description'', JStr DESC_HEADLINE)]),
         (ascii ''fortune'', JObj
           [(ascii ''type'', JStr (ascii ''string'')),
            (ascii ''description'', JStr DESC_FORTUNE)]),
         (ascii ''actionSteps'', JObj
           [(ascii ''type'', JStr (ascii ''array'')),
            (ascii ''minItems'', JNum (Finite 3)),
            (ascii ''items'', JObj [(ascii ''type'', JStr (ascii ''string''))]),
            (ascii ''description'', JStr DESC_ACTION_STEPS)]),
         (ascii ''luckyItem'', JObj
           [(ascii ''type'', JStr (ascii ''string'')),
            (ascii ''description'', JStr DESC_LUCKY_ITEM)]),
         (ascii ''energyLevel'', JObj
           [(ascii ''type'', JStr (ascii ''string'')),
            (ascii ''description'', JStr DESC_ENERGY_LEVEL)])]),
      (ascii ''required'', JArr
        [JStr (ascii ''headline''), JStr (ascii ''fortune''), JStr (ascii ''actionSteps''),
         JStr (ascii ''luckyItem''), JStr (ascii ''energyLevel'')])]"

subsection \<open>The handler's surroundings\<close>

text \<open>The argument of \<^verbatim>\<open>openai.chat.completions.create\<close> (lines 83-111).\<close>

record chat_request =
  model :: jsstring
  temperature :: rat
  schema_name :: jsstring
  schema :: json
  schema_strict :: bool
  system_content :: jsstring
  user_content :: jsstring

text \<open>
  What the route finds around it: the environment variable (\<open>None\<close> when it is not set),
  as line 18 reads it when the module is loaded and as line 54 reads it when a request is
  handled; the Unicode tables behind \<^verbatim>\<open>toUpperCase\<close>; \<^verbatim>\<open>JSON.parse\<close>; and the completion
  service, which answers a request with a completion object or throws.
\<close>

record runtime =
  OPENAI_API_KEY_at_load :: "jsstring option"
  OPENAI_API_KEY :: "jsstring option"
  unicode_upper :: "jsstring \<Rightarrow> jsstring"
  JSON_parse :: "jsstring \<Rightarrow> js_error + json"
  completions_create :: "chat_request \<Rightarrow> js_error + json"

text \<open>
  \<^verbatim>\<open>NextResponse.json(body, { status })\<close>; the status is 200 when none is given. The response
  carries the text \<^verbatim>\<open>JSON.stringify(body)\<close>, so the body a client reads is \<open>serialise body\<close>.
\<close>

record http_response =
  status :: nat
  body :: json

definition NextResponse_json :: "json \<Rightarrow> nat \<Rightarrow> http_response" where
  "NextResponse_json b st = \<lparr>status = st, body = serialise b\<rparr>"

definition error_body :: "jsstring \<Rightarrow> json" where
  "error_body msg = JObj [(ascii ''error'', JStr msg)]"

text \<open>
  One run ends with a response or with an exception that leaves the code of the route
  (\<open>Inl\<close>); \<open>calls\<close> lists the requests it made to the completion service and
  \<open>logged\<close> what it wrote with \<^verbatim>\<open>console.error\<close>.
\<close>

record handler_outcome =
  result :: "js_error + http_response"
  calls :: "chat_request list"
  logged :: "js_error list"

definition responded :: "http_response \<Rightarrow> handler_outcome" where
  "responded r = \<lparr>result = Inr r, calls = [], logged = []\<rparr>"

definition threw :: "js_error \<Rightarrow> handler_outcome" where
  "threw e = \<lparr>result = Inl e, calls = [], logged = []\<rparr>"

subsection \<open>The steps of POST\<close>

text \<open>Line 71: \<^verbatim>\<open>payload.mbti?.trim().toUpperCase() ?? ''\<close>.\<close>

definition mbti_of :: "(jsstring \<Rightarrow> jsstring) \<Rightarrow> json \<Rightarrow> js_error + jsstring" where
  "mbti_of up payload =
     (case get_prop payload (ascii ''mbti'') of
        Inl e \<Rightarrow> Inl e
      | Inr v \<Rightarrow>
          (case opt_trim v of
             Inl e \<Rightarrow> Inl e
           | Inr None \<Rightarrow> Inr []
           | Inr (Some t) \<Rightarrow> Inr (toUpperCase up t)))"

text \<open>Line 72: \<^verbatim>\<open>payload.concern?.trim() ?? ''\<close>.\<close>

definition concern_of :: "json \<Rightarrow> js_error + jsstring" where
  "concern_of payload =
     (case get_prop payload (ascii ''concern'') of
        Inl e \<Rightarrow> Inl e
      | Inr v \<Rightarrow>
          (case opt_trim v of
             Inl e \<Rightarrow> Inl e
           | Inr None \<Rightarrow> Inr []
           | Inr (Some t) \<Rightarrow> Inr t))"

text \<open>Line 73: \<^verbatim>\<open>/^[IE][NS][TF][JP]$/.test(s)\<close>.\<close>

fun mbtiPattern_test :: "jsstring \<Rightarrow> bool" where
  "mbtiPattern_test [a, b, c, d] \<longleftrightarrow>
     (a = 0x0049 \<or> a = 0x0045) \<and> (b = 0x004E \<or> b = 0x0053) \<and>
     (c = 0x0054 \<or> c = 0x0046) \<and> (d = 0x004A \<or> d = 0x0050)"
| "mbtiPattern_test s \<longleftrightarrow> False"

text \<open>Lines 83-111: the request sent to the completion service.\<close>

definition chat_request_of :: "jsstring \<Rightarrow> jsstring \<Rightarrow> chat_request" where
  "chat_request_of m c =
     \<lparr>model = ascii ''gpt-4o-mini'',
      temperature = 8 / 10,
      schema_name = ascii ''fortune_schema'',
      schema = FORTUNE_SCHEMA,
      schema_strict = True,
      system_content = SYSTEM_PROMPT,
      user_content =
        ascii ''MBTI: '' @ m @ PROMPT_SITUATION @ (if c = [] then DEFAULT_CONCERN else c)
          @ PROMPT_RULES\<rparr>"

text \<open>Lines 113-115: \<^verbatim>\<open>completion.choices[0]\<close>, then \<^verbatim>\<open>choice?.message?.content\<close>.\<close>

definition message_content :: "json \<Rightarrow> js_error + json option" where
  "message_content completion =
     (case get_prop completion (ascii ''choices'') of
        Inl e \<Rightarrow> Inl e
      | Inr choices \<Rightarrow>
          (case index0 choices of
             Inl e \<Rightarrow> Inl e
           | Inr choice \<Rightarrow>
               Inr (opt_prop (opt_prop choice (ascii ''message'')) (ascii ''content''))))"

text \<open>
  Lines 121-125: the text of one block, or the empty string when the block is not an
  object that holds a string under \<^verbatim>\<open>text\<close>.
\<close>

fun block_text :: "json \<Rightarrow> jsstring" where
  "block_text (JObj ps) =
     (case map_of ps (ascii ''text'') of Some (JStr t) \<Rightarrow> t | _ \<Rightarrow> [])"
| "block_text v = []"

text \<open>Lines 116-127: the content as one string.\<close>

fun rawContent_of :: "json option \<Rightarrow> jsstring" where
  "rawContent_of (Some (JStr s)) = s"
| "rawContent_of (Some (JArr blocks)) = join [0x000A] (map block_text blocks)"
| "rawContent_of v = []"

text \<open>Lines 83-135, the body of the \<^verbatim>\<open>try\<close>: the parsed fortune, or what was thrown.\<close>

definition generate :: "runtime \<Rightarrow> chat_request \<Rightarrow> js_error + json" where
  "generate rt req =
     (case completions_create rt req of
        Inl e \<Rightarrow> Inl e
      | Inr completion \<Rightarrow>
          (case message_content completion of
             Inl e \<Rightarrow> Inl e
           | Inr message \<Rightarrow>
               (let rawContent = rawContent_of message
                in if rawContent = [] then Inl (Error MSG_EMPTY_MODEL)
                   else JSON_parse rt rawContent)))"

subsection \<open>POST\<close>

text \<open>
  The handler, lines 53-143. It takes the outcome of \<^verbatim>\<open>request.json()\<close>: the parsed body, or
  \<open>Inl\<close> when the body is not JSON. To the handler the environment variable is missing
  when it is not set or empty at the time of the request (\<^verbatim>\<open>!process.env.OPENAI_API_KEY\<close>).
  The handler runs only in a module that has loaded: \<open>endpoint\<close> below puts the
  module-level code of lines 17-19 in front of it.
\<close>

definition key_missing :: "runtime \<Rightarrow> bool" where
  "key_missing rt \<longleftrightarrow> (case OPENAI_API_KEY rt of None \<Rightarrow> True | Some k \<Rightarrow> k = [])"

definition POST :: "runtime \<Rightarrow> js_error + json \<Rightarrow> handler_outcome" where
  "POST rt request_json =
     (if key_missing rt then responded (NextResponse_json (error_body MSG_KEY_MISSING) 500)
      else
        (case request_json of
           Inl _ \<Rightarrow> responded (NextResponse_json (error_body MSG_BODY_UNREADABLE) 400)
         | Inr payload \<Rightarrow>
             (case mbti_of (unicode_upper rt) payload of
                Inl e \<Rightarrow> threw e
              | Inr m \<Rightarrow>
                  (case concern_of payload of
                     Inl e \<Rightarrow> threw e
                   | Inr c \<Rightarrow>
                       if m = [] \<or> \<not> mbtiPattern_test m
                       then responded (NextResponse_json (error_body MSG_MBTI_INVALID) 400)
                       else
                         (let req = chat_request_of m c
                          in case generate rt req of
                               Inr parsed \<Rightarrow>
                                 \<lparr>result = Inr (NextResponse_json parsed 200),
                                  calls = [req], logged = []\<rparr>
                             | Inl e \<Rightarrow>
                                 \<lparr>result = Inr (NextResponse_json (error_body MSG_GENERIC) 500),
                                  calls = [req], logged = [e]\<rparr>)))))"

subsection \<open>The module and the endpoint\<close>

text \<open>
  Lines 17-19 run when the module is loaded, before any request reaches \<open>POST\<close>:
  \<^verbatim>\<open>new OpenAI({ apiKey: process.env.OPENAI_API_KEY })\<close>. The constructor of the SDK throws
  when the key it is given is \<^verbatim>\<open>undefined\<close>; otherwise the client holds the key.
\<close>

definition new_OpenAI :: "jsstring option \<Rightarrow> js_error + jsstring" where
  "new_OpenAI apiKey = (case apiKey of None \<Rightarrow> Inl OpenAIError | Some k \<Rightarrow> Inr k)"

text \<open>
  A request to \<^verbatim>\<open>POST /api/fortune\<close>: the module is loaded, and only a module that has
  loaded has a handler to run. When the load throws, the exception leaves the route and no
  response comes from its code.
\<close>

definition endpoint :: "runtime \<Rightarrow> js_error + json \<Rightarrow> handler_outcome" where
  "endpoint rt request_json =
     (case new_OpenAI (OPENAI_API_KEY_at_load rt) of
        Inl e \<Rightarrow> threw e
      | Inr openai \<Rightarrow> POST rt request_json)"

subsection \<open>Shapes of payloads and responses\<close>

text \<open>
  Lines 71 and 72 call \<^verbatim>\<open>trim\<close> on whatever the body holds under \<^verbatim>\<open>mbti\<close> and \<^verbatim>\<open>concern\<close>.
  The payloads on which neither line throws are the ones that are not \<^verbatim>\<open>null\<close> and hold
  nothing, \<^verbatim>\<open>null\<close> or a string under each of the two keys; every value of the declared
  type \<^verbatim>\<open>RequestPayload\<close> (lines 4-7) is one.
\<close>

fun trimmable :: "json option \<Rightarrow> bool" where
  "trimmable None = True"
| "trimmable (Some JNull) = True"
| "trimmable (Some (JStr s)) = True"
| "trimmable (Some v) = False"

definition payload_ok :: "json \<Rightarrow> bool" where
  "payload_ok payload \<longleftrightarrow>
     payload \<noteq> JNull \<and> trimmable (opt_prop (Some payload) (ascii ''mbti''))
       \<and> trimmable (opt_prop (Some payload) (ascii ''concern''))"

text \<open>The type \<^verbatim>\<open>FortuneResponse\<close> (lines 9-15): five fields, each present with its type.\<close>

fun is_string :: "json option \<Rightarrow> bool" where
  "is_string (Some (JStr s)) = True"
| "is_string v = False"

fun is_string_array :: "json option \<Rightarrow> bool" where
  "is_string_array (Some (JArr xs)) = list_all (\<lambda>x. is_string (Some x)) xs"
| "is_string_array v = False"

fun is_FortuneResponse :: "json \<Rightarrow> bool" where
  "is_FortuneResponse (JObj ps) \<longleftrightarrow>
     is_string (map_of ps (ascii ''headline'')) \<and> is_string (map_of ps (ascii ''fortune''))
     \<and> is_string_array (map_of ps (ascii ''actionSteps''))
     \<and> is_string (map_of ps (ascii ''luckyItem''))
     \<and> is_string (map_of ps (ascii ''energyLevel''))"
| "is_FortuneResponse v \<longleftrightarrow> False"



text \<open>An object of the shape \<^verbatim>\<open>{ error: string }\<close>.\<close>

fun is_error_body :: "json \<Rightarrow> bool" where
  "is_error_body (JObj [(k, JStr msg)]) \<longleftrightarrow> k = ascii ''error''"
| "is_error_body v \<longleftrightarrow> False"

text \<open>The status classes of HTTP.\<close>

definition is_client_error :: "nat \<Rightarrow> bool" where
  "is_client_error st \<longleftrightarrow> 400 \<le> st \<and> st < 500"

definition is_server_error :: "nat \<Rightarrow> bool" where
  "is_server_error st \<longleftrightarrow> 500 \<le> st \<and> st < 600"


subsection \<open>The normalisation of the content, as the specification words it\<close>

text \<open>
  The specification's wording of lines 116-127: a string is used as it is; of a sequence
  of blocks, the blocks without extractable text are skipped and the texts of the others
  are joined by newlines.
\<close>

fun has_text :: "json \<Rightarrow> bool" where
  "has_text (JObj ps) = is_string (map_of ps (ascii ''text''))"
| "has_text v = False"

fun spec_normalize :: "json option \<Rightarrow> jsstring" where
  "spec_normalize (Some (JStr s)) = s"
| "spec_normalize (Some (JArr blocks)) = join [0x000A] (map block_text (filter has_text blocks))"
| "spec_normalize v = []"

subsection \<open>Sample surroundings\<close>

text \<open>
  A completion whose first choice carries the given content, and a runtime with the given
  key, the same at load and at every request, whose service answers every request with
  the given outcome. Its \<^verbatim>\<open>JSON.parse\<close> knows three texts: the empty object, one fortune, and
  that fortune with a sixth field whose number overflows a double. It rejects the rest: it
  is the real one on these three texts and on every text that is not JSON. Its
  \<^verbatim>\<open>toUpperCase\<close> leaves a string that is not ASCII as it is.
\<close>

definition completion_with :: "json \<Rightarrow> json" where
  "completion_with content =
     JObj [(ascii ''choices'',
       JArr [JObj [(ascii ''message'', JObj [(ascii ''content'', content)])]])]"

definition sample_fortune_text :: jsstring where
  \<open>sample_fortune_text =
     ascii ''{"headline":"h","fortune":"f","actionSteps":["a","b","c"],"luckyItem":"l","energyLevel":"e"}''\<close>

definition sample_fortune :: json where
  "sample_fortune = JObj
     [(ascii ''headline'', JStr (ascii ''h'')),
      (ascii ''fortune'', JStr (ascii ''f'')),
      (ascii ''actionSteps'', JArr [JStr (ascii ''a''), JStr (ascii ''b''), JStr (ascii ''c'')]),
      (ascii ''luckyItem'', JStr (ascii ''l'')),
      (ascii ''energyLevel'', JStr (ascii ''e''))]"

definition overflow_fortune_text :: jsstring where
  \<open>overflow_fortune_text =
     ascii ''{"headline":"h","fortune":"f","actionSteps":["a","b","c"],"luckyItem":"l","energyLevel":"e","score":1e400}''\<close>

definition overflow_fortune :: json where
  "overflow_fortune = JObj
     [(ascii ''headline'', JStr (ascii ''h'')),
      (ascii ''fortune'', JStr (ascii ''f'')),
      (ascii ''actionSteps'', JArr [JStr (ascii ''a''), JStr (ascii ''b''), JStr (ascii ''c'')]),
      (ascii ''luckyItem'', JStr (ascii ''l'')),
      (ascii ''energyLevel'', JStr (ascii ''e'')),
      (ascii ''score'', JNum PosInfinity)]"

definition sample_parse :: "jsstring \<Rightarrow> js_error + json" where
  "sample_parse s =
     (if s = ascii ''{}'' then Inr (JObj [])
      else if s = sample_fortune_text then Inr sample_fortune
      else if s = overflow_fortune_text then Inr overflow_fortune
      else Inl SyntaxError)"

definition sample_runtime :: "jsstring option \<Rightarrow> js_error + json \<Rightarrow> runtime" where
  "sample_runtime key answer =
     \<lparr>OPENAI_API_KEY_at_load = key, OPENAI_API_KEY = key, unicode_upper = (\<lambda>s. s),
      JSON_parse = sample_parse, completions_create = (\<lambda>req. answer)\<rparr>"

text \<open>The request \<^verbatim>\<open>{ "mbti": "intj", "concern": "" }\<close>.\<close>

definition sample_payload :: json where
  "sample_payload = JObj [(ascii ''mbti'', JStr (ascii ''intj'')), (ascii ''concern'', JStr [])]"

section \<open>The page (the client component \<^verbatim>\<open>Home\<close>)\<close>

subsection \<open>Literals\<close>

definition MBTI_TYPES :: "jsstring list" where
  "MBTI_TYPES =
     [ascii ''INTJ'', ascii ''INTP'', ascii ''ENTJ'', ascii ''ENTP'',
      ascii ''INFJ'', ascii ''INFP'', ascii ''ENFJ'', ascii ''ENFP'',
      ascii ''ISTJ'', ascii ''ISFJ'', ascii ''ESTJ'', ascii ''ESFJ'',
      ascii ''ISTP'', ascii ''ISFP'', ascii ''ESTP'', ascii ''ESFP'']"

definition PRESET_1 :: jsstring where
  \<comment> \<open>page line 26\<close>
  "PRESET_1 =
     [0xC0C8, 0xB85C, 0xC6B4, 0x0020, 0xD504, 0xB85C, 0xC81D, 0xD2B8, 0xB97C, 0x0020, 0xC2DC,
     0xC791, 0xD588, 0xB294, 0xB370, 0x0020, 0xBC29, 0xD5A5, 0xC131, 0xC744, 0x0020, 0xC7A1,
     0xACE0, 0x0020, 0xC2F6, 0xC5B4, 0xC694, 0x002E]"

definition PRESET_2 :: jsstring where
  \<comment> \<open>page line 27\<close>
  "PRESET_2 =
     [0xCE5C, 0xAD6C, 0xC640, 0xC758, 0x0020, 0xAC10, 0xC815, 0xC801, 0x0020, 0xAC08, 0xB4F1,
     0xC744, 0x0020, 0xBD80, 0xB4DC, 0xB7FD, 0xAC8C, 0x0020, 0xD480, 0xACE0, 0x0020, 0xC2F6,
     0xC5B4, 0xC694, 0x002E]"

definition PRESET_3 :: jsstring where
  \<comment> \<open>page line 28\<close>
  "PRESET_3 =
     [0xC624, 0xB298, 0x0020, 0xC911, 0xC694, 0xD55C, 0x0020, 0xBC1C, 0xD45C, 0xAC00, 0x0020,
     0xC788, 0xB294, 0xB370, 0x0020, 0xB9C8, 0xC74C, 0xC744, 0x0020, 0xB2E4, 0xC7A1, 0xACE0,
     0x0020, 0xC2F6, 0xC5B4, 0xC694, 0x002E]"

definition PRESET_CONCERNS :: "jsstring list" where
  "PRESET_CONCERNS = [PRESET_1, PRESET_2, PRESET_3]"

definition MSG_SELECT_MBTI :: jsstring where
  \<comment> \<open>page line 67: Korean for "Please choose an MBTI type."\<close>
  "MSG_SELECT_MBTI =
     [0x004D, 0x0042, 0x0054, 0x0049, 0x0020, 0xC720, 0xD615, 0xC744, 0x0020, 0xC120, 0xD0DD,
     0xD574, 0x0020, 0xC8FC, 0xC138, 0xC694, 0x002E]"

definition MSG_FETCH_FAILED :: jsstring where
  \<comment> \<open>page line 91: Korean for "A problem occurred while fetching the fortune."\<close>
  "MSG_FETCH_FAILED =
     [0xC810, 0xAD18, 0xB97C, 0x0020, 0xAC00, 0xC838, 0xC624, 0xB294, 0x0020, 0xC911, 0x0020,
     0xBB38, 0xC81C, 0xAC00, 0x0020, 0xBC1C, 0xC0DD, 0xD588, 0xC5B4, 0xC694, 0x002E]"

definition MSG_UNKNOWN :: jsstring where
  \<comment> \<open>page line 106: Korean for "An unknown error occurred."\<close>
  "MSG_UNKNOWN =
     [0xC54C, 0x0020, 0xC218, 0x0020, 0xC5C6, 0xB294, 0x0020, 0xC624, 0xB958, 0xAC00, 0x0020,
     0xBC1C, 0xC0DD, 0xD588, 0xC5B4, 0xC694, 0x002E]"

text \<open>The two markers of lines 50 and 51: the Hangul syllables of "high" and of "low".\<close>

definition HIGH_MARK :: jsstring where
  "HIGH_MARK = [0xB192]"

definition LOW_MARK :: jsstring where
  "LOW_MARK = [0xB0AE]"

subsection \<open>State\<close>

text \<open>The six \<^verbatim>\<open>useState\<close> cells of lines 40-45; \<open>None\<close> is \<^verbatim>\<open>null\<close>.\<close>

record page_state =
  mbti :: jsstring
  concern :: jsstring
  fortune :: "json option"
  isLoading :: bool
  error :: "jsstring option"
  lastUpdated :: jsstring

definition initial_state :: page_state where
  "initial_state =
     \<lparr>mbti = [], concern = [], fortune = None, isLoading = False, error = None,
      lastUpdated = []\<rparr>"

subsection \<open>The energy tone (lines 47-53)\<close>

datatype tone = High | Mid | Low

text \<open>
  \<^verbatim>\<open>fortune.energyLevel.trim()\<close> throws a TypeError unless the field holds a string; the
  memo returns \<^verbatim>\<open>null\<close> (\<open>None\<close>) when there is no fortune.
\<close>

definition energyTone :: "json option \<Rightarrow> js_error + tone option" where
  "energyTone current =
     (case current of
        None \<Rightarrow> Inr None
      | Some f \<Rightarrow>
          if \<not> truthy f then Inr None
          else
            (case get_prop f (ascii ''energyLevel'') of
               Inl e \<Rightarrow> Inl e
             | Inr (Some (JStr level)) \<Rightarrow>
                 (let normalized = trim level
                  in if includes_str normalized HIGH_MARK then Inr (Some High)
                     else if includes_str normalized LOW_MARK then Inr (Some Low)
                     else Inr (Some Mid))
             | Inr _ \<Rightarrow> Inl TypeError))"

subsection \<open>Submitting (lines 64-111)\<close>

text \<open>
  What the page can catch: an \<^verbatim>\<open>Error\<close> with its message, or a value that is not an
  \<^verbatim>\<open>Error\<close>. A call of \<^verbatim>\<open>fetch\<close> rejects, or resolves to a response with its \<^verbatim>\<open>ok\<close> flag and
  the outcome of \<^verbatim>\<open>response.json()\<close> (\<open>None\<close> when the body is not JSON).
\<close>

datatype thrown = ErrorInstance jsstring | NotAnError

datatype fetch_outcome = Rejected thrown | Response bool "json option"

text \<open>
  The browser around one submission: the answer of \<^verbatim>\<open>fetch\<close> to a POST of the given JSON
  body, the text \<^verbatim>\<open>toLocaleTimeString\<close> gives for the current time, and the message an
  \<^verbatim>\<open>Error\<close> made from a value that is not a string ends up with.
\<close>

record browser =
  fetch :: "json \<Rightarrow> fetch_outcome"
  clock :: jsstring
  ToString :: "json \<Rightarrow> jsstring"

text \<open>Line 80: the body \<^verbatim>\<open>{ mbti, concern }\<close>, as the endpoint parses it.\<close>

definition request_body :: "page_state \<Rightarrow> json" where
  "request_body s = JObj [(ascii ''mbti'', JStr (mbti s)), (ascii ''concern'', JStr (concern s))]"

text \<open>Lines 89-92: the message of the \<^verbatim>\<open>Error\<close> thrown for a failed response.\<close>

definition failure_message :: "(json \<Rightarrow> jsstring) \<Rightarrow> json \<Rightarrow> jsstring" where
  "failure_message tostr payload =
     (case opt_prop (Some payload) (ascii ''error'') of
        None \<Rightarrow> MSG_FETCH_FAILED
      | Some JNull \<Rightarrow> MSG_FETCH_FAILED
      | Some (JStr msg) \<Rightarrow> msg
      | Some v \<Rightarrow> tostr v)"

text \<open>Lines 75-93, the \<^verbatim>\<open>try\<close> up to the check: the payload, or what was thrown.\<close>

definition request_outcome :: "browser \<Rightarrow> json \<Rightarrow> thrown + json" where
  "request_outcome br b =
     (case fetch br b of
        Rejected e \<Rightarrow> Inl e
      | Response ok parsed \<Rightarrow>
          (let payload = (case parsed of None \<Rightarrow> JNull | Some v \<Rightarrow> v)
           in if \<not> ok \<or> \<not> truthy payload
              then Inl (ErrorInstance (failure_message (ToString br) payload))
              else Inr payload))"

text \<open>
  The handler returns the state after it has run to its end, and the bodies it has
  posted to the endpoint.
\<close>

definition handleSubmit :: "browser \<Rightarrow> page_state \<Rightarrow> page_state \<times> json list" where
  "handleSubmit br s =
     (if mbti s = [] then (s\<lparr>error := Some MSG_SELECT_MBTI\<rparr>, [])
      else
        (let s1 = s\<lparr>isLoading := True, error := None\<rparr>;
             s2 = (case request_outcome br (request_body s) of
                     Inr payload \<Rightarrow> s1\<lparr>fortune := Some payload, lastUpdated := clock br\<rparr>
                   | Inl e \<Rightarrow>
                       s1\<lparr>error := Some (case e of ErrorInstance msg \<Rightarrow> msg
                                                | NotAnError \<Rightarrow> MSG_UNKNOWN)\<rparr>)
         in (s2\<lparr>isLoading := False\<rparr>, [request_body s])))"

subsection \<open>The states the page can reach\<close>

text \<open>
  The state changes by the three controls of the form. The selector (lines 148-160)
  offers the empty value and the members of \<open>MBTI_TYPES\<close>; the text area takes any text;
  a preset button, enabled while nothing is loading, overwrites the concern; submitting
  runs \<open>handleSubmit\<close>.
\<close>

inductive reachable :: "page_state \<Rightarrow> bool" where
  initial: "reachable initial_state"
| select_mbti: "reachable s \<Longrightarrow> v \<in> set ([] # MBTI_TYPES) \<Longrightarrow> reachable (s\<lparr>mbti := v\<rparr>)"
| type_concern: "reachable s \<Longrightarrow> reachable (s\<lparr>concern := text\<rparr>)"
| click_preset:
    "reachable s \<Longrightarrow> \<not> isLoading s \<Longrightarrow> p \<in> set PRESET_CONCERNS \<Longrightarrow> reachable (s\<lparr>concern := p\<rparr>)"
| submit: "reachable s \<Longrightarrow> reachable (fst (handleSubmit br s))"

text \<open>A browser whose \<^verbatim>\<open>fetch\<close> gives the same outcome to every request.\<close>

definition sample_browser :: "fetch_outcome \<Rightarrow> browser" where
  "sample_browser outcome =
     \<lparr>fetch = (\<lambda>b. outcome), clock = ascii ''09:30'', ToString = (\<lambda>v. ascii ''[object Object]'')\<rparr>"

text \<open>A state that shows a fortune received at 09:00, with a type selected.\<close>

definition sample_state :: page_state where
  "sample_state =
     \<lparr>mbti = ascii ''INTJ'', concern = [], fortune = Some sample_fortune, isLoading = False,
      error = None, lastUpdated = ascii ''09:00''\<rparr>"

section \<open>Properties of the endpoint\<close>

subsection \<open>Auxiliary facts\<close>

lemma toUpperCase_Nil: "toUpperCase up [] = []"
  by (simp add: toUpperCase_def)

lemma get_prop_opt_prop: "p \<noteq> JNull \<Longrightarrow> get_prop p k = Inr (opt_prop (Some p) k)"
  by (cases p) simp_all

lemma trimmable_opt_trim: "trimmable v \<Longrightarrow> \<exists>t. opt_trim v = Inr t"
  by (cases v rule: trimmable.cases) simp_all

lemma not_trimmable_opt_trim: "\<not> trimmable v \<Longrightarrow> opt_trim v = Inl TypeError"
  by (cases v rule: trimmable.cases) simp_all

lemma payload_ok_fields:
  assumes "payload_ok p"
  shows "\<exists>mv cv. get_prop p (ascii ''mbti'') = Inr mv \<and> trimmable mv
           \<and> get_prop p (ascii ''concern'') = Inr cv \<and> trimmable cv"
  using assms by (cases p) (simp_all add: payload_ok_def)

lemma payload_ok_extract:
  assumes "payload_ok p"
  shows "\<exists>m c. mbti_of up p = Inr m \<and> concern_of p = Inr c"
proof -
  from payload_ok_fields [OF assms] obtain mv cv where
    f: "get_prop p (ascii ''mbti'') = Inr mv" "trimmable mv"
       "get_prop p (ascii ''concern'') = Inr cv" "trimmable cv"
    by blast
  from trimmable_opt_trim [OF f(2)] obtain tm where tm: "opt_trim mv = Inr tm" ..
  from trimmable_opt_trim [OF f(4)] obtain tc where tc: "opt_trim cv = Inr tc" ..
  show ?thesis using f tm tc
    by (cases tm; cases tc) (simp_all add: mbti_of_def concern_of_def)
qed

text \<open>An error body is a string under one key: it is sent as it is.\<close>

lemma serialise_error_body: "serialise (error_body msg) = error_body msg"
  by (simp add: error_body_def)

text \<open>A module that has loaded hands every request to the handler.\<close>

lemma endpoint_loaded: "OPENAI_API_KEY_at_load rt \<noteq> None \<Longrightarrow> endpoint rt request_json = POST rt request_json"
  by (auto simp: endpoint_def new_OpenAI_def)

text \<open>Past the validation, the response is decided by the body of the \<^verbatim>\<open>try\<close> alone.\<close>

lemma POST_accepts:
  assumes "\<not> key_missing rt"
    and "mbti_of (unicode_upper rt) payload = Inr m"
    and "concern_of payload = Inr c"
    and "m \<noteq> []" "mbtiPattern_test m"
  shows "POST rt (Inr payload) =
    (case generate rt (chat_request_of m c) of
       Inr parsed \<Rightarrow> \<lparr>result = Inr \<lparr>status = 200, body = serialise parsed\<rparr>,
                       calls = [chat_request_of m c], logged = []\<rparr>
     | Inl e \<Rightarrow> \<lparr>result = Inr \<lparr>status = 500, body = error_body MSG_GENERIC\<rparr>,
                  calls = [chat_request_of m c], logged = [e]\<rparr>)"
  using assms
  by (simp add: POST_def NextResponse_json_def serialise_error_body Let_def split: sum.splits)

lemma generate_Inr:
  assumes "generate rt req = Inr v"
  shows "\<exists>completion message.
           completions_create rt req = Inr completion \<and>
           message_content completion = Inr message \<and>
           rawContent_of message \<noteq> [] \<and>
           JSON_parse rt (rawContent_of message) = Inr v"
  using assms by (auto simp: generate_def Let_def split: sum.splits if_splits)

text \<open>The samples, evaluated.\<close>

lemma ascii_INTJ: "ascii ''INTJ'' = [0x0049, 0x004E, 0x0054, 0x004A]"
  by (simp add: ascii_def)

lemma INTJ_valid: "ascii ''INTJ'' \<noteq> []" "mbtiPattern_test (ascii ''INTJ'')"
  by (simp_all add: ascii_INTJ)

lemma sample_key: "\<not> key_missing (sample_runtime (Some (ascii ''sk'')) answer)"
  by (simp add: key_missing_def sample_runtime_def ascii_def)

lemma sample_payload_ok: "payload_ok sample_payload"
  by (simp add: payload_ok_def sample_payload_def ascii_def)

lemma sample_payload_fields:
  "mbti_of (unicode_upper (sample_runtime key answer)) sample_payload = Inr (ascii ''INTJ'')"
  "concern_of sample_payload = Inr []"
  by (simp_all add: sample_payload_def mbti_of_def concern_of_def trim_def toUpperCase_def
      ascii_def is_ws_def is_ascii_def ascii_upper_def)

lemma sample_service: "completions_create (sample_runtime key answer) req = answer"
  by (simp add: sample_runtime_def)

lemma completion_with_content: "message_content (completion_with content) = Inr (Some content)"
  by (simp add: completion_with_def message_content_def ascii_def)

lemma sample_parse_braces: "JSON_parse (sample_runtime key answer) (ascii ''{}'') = Inr (JObj [])"
  by (simp add: sample_runtime_def sample_parse_def)



lemma sample_parse_oops:
  "JSON_parse (sample_runtime key answer) (ascii ''oops'') = Inl SyntaxError"
  by (simp add: sample_runtime_def sample_parse_def sample_fortune_text_def
      overflow_fortune_text_def ascii_def)



lemma sample_loaded: "OPENAI_API_KEY_at_load (sample_runtime (Some k) answer) \<noteq> None"
  by (simp add: sample_runtime_def)

subsection \<open>The handler's own checks\<close>

text \<open>
  When the handler runs and finds the credential missing, it answers with status 500 and
  an \<^verbatim>\<open>{ error }\<close> body and makes no call (lines 54-59).
\<close>

lemma POST_missing_key:
  assumes "key_missing rt"
  shows "POST rt request_json =
    \<lparr>result = Inr \<lparr>status = 500, body = error_body MSG_KEY_MISSING\<rparr>,
     calls = [], logged = []\<rparr>"
  using assms by (simp add: POST_def responded_def NextResponse_json_def serialise_error_body)

text \<open>
  Where neither line 71 nor line 72 throws, the handler rejects an \<^verbatim>\<open>mbti\<close> that is absent,
  \<^verbatim>\<open>null\<close>, empty after trimming or not matching the pattern with status 400 and makes no
  call (lines 75-80).
\<close>

lemma POST_rejects_invalid_mbti:
  assumes key: "\<not> key_missing rt"
    and mv: "get_prop payload (ascii ''mbti'') = Inr mv"
    and cv: "get_prop payload (ascii ''concern'') = Inr cv" "trimmable cv"
    and bad: "mv = None \<or> mv = Some JNull \<or>
      (\<exists>s. mv = Some (JStr s) \<and>
           (trim s = [] \<or> \<not> mbtiPattern_test (toUpperCase (unicode_upper rt) (trim s))))"
  shows "POST rt (Inr payload) =
    \<lparr>result = Inr \<lparr>status = 400, body = error_body MSG_MBTI_INVALID\<rparr>,
     calls = [], logged = []\<rparr>"
proof -
  from trimmable_opt_trim [OF cv(2)] obtain tc where tc: "opt_trim cv = Inr tc" ..
  then obtain c where c: "concern_of payload = Inr c"
    using cv(1) by (cases tc) (simp_all add: concern_of_def)
  from bad obtain m where m: "mbti_of (unicode_upper rt) payload = Inr m"
    and rej: "m = [] \<or> \<not> mbtiPattern_test m"
    using mv by (auto simp: mbti_of_def toUpperCase_Nil)
  show ?thesis using key m c rej
    by (auto simp: POST_def responded_def NextResponse_json_def serialise_error_body)
qed

subsection \<open>The configuration check\<close>

text \<open>
  Claim C5. The claim says that with the credential absent from the environment the
  endpoint answers every request with a server-error status and an \<^verbatim>\<open>{ error }\<close> body. The
  route does not get that far: line 17 builds the client when the module is loaded, the
  constructor throws on the missing key, and the check of lines 54-59 never runs. With the
  key unset when the module loads, every request ends with that exception and without a
  response from the handler; no call to the completion service is made.
\<close>

theorem unset_key_fails_at_load:
  assumes "OPENAI_API_KEY_at_load rt = None"
  shows "endpoint rt request_json = \<lparr>result = Inl OpenAIError, calls = [], logged = []\<rparr>"
  using assms by (simp add: endpoint_def new_OpenAI_def threw_def)

theorem unset_key_fails_at_load_witness:
  "OPENAI_API_KEY_at_load (sample_runtime None (Inl TypeError)) = None \<and>
   endpoint (sample_runtime None (Inl TypeError)) (Inr sample_payload) =
     \<lparr>result = Inl OpenAIError, calls = [], logged = []\<rparr>"
proof -
  have k: "OPENAI_API_KEY_at_load (sample_runtime None (Inl TypeError)) = None"
    by (simp add: sample_runtime_def)
  from k unset_key_fails_at_load [OF k] show ?thesis by simp
qed

subsection \<open>Validation\<close>

text \<open>
  Claim C1. The claim says that every request whose \<^verbatim>\<open>mbti\<close> is absent, empty or not
  matching is answered with a client error. The handler does not keep it for all of them:
  with the credential configured, the body \<^verbatim>\<open>{ "concern": 5 }\<close> has no \<^verbatim>\<open>mbti\<close>, and the body
  \<^verbatim>\<open>{ "mbti": 5 }\<close> has one that does not match, yet on both the handler ends with a
  TypeError at line 72 or 71, before the check of line 75, and gives no response. The
  completion service is not called.
\<close>

theorem untrimmable_field_skips_validation:
  "opt_prop (Some (JObj [(ascii ''concern'', JNum (Finite 5))])) (ascii ''mbti'') = None \<and>
   endpoint (sample_runtime (Some (ascii ''sk'')) (Inl TypeError))
            (Inr (JObj [(ascii ''concern'', JNum (Finite 5))])) =
     \<lparr>result = Inl TypeError, calls = [], logged = []\<rparr> \<and>
   endpoint (sample_runtime (Some (ascii ''sk'')) (Inl TypeError))
            (Inr (JObj [(ascii ''mbti'', JNum (Finite 5))])) =
     \<lparr>result = Inl TypeError, calls = [], logged = []\<rparr>"
proof -
  let ?rt = "sample_runtime (Some (ascii ''sk'')) (Inl TypeError)"
  have a: "opt_prop (Some (JObj [(ascii ''concern'', JNum (Finite 5))])) (ascii ''mbti'') = None"
    by (simp add: ascii_def)
  have m1: "mbti_of (unicode_upper ?rt) (JObj [(ascii ''concern'', JNum (Finite 5))]) = Inr []"
    by (simp add: mbti_of_def ascii_def)
  have c1: "concern_of (JObj [(ascii ''concern'', JNum (Finite 5))]) = Inl TypeError"
    by (simp add: concern_of_def)
  have m2: "mbti_of (unicode_upper ?rt) (JObj [(ascii ''mbti'', JNum (Finite 5))]) = Inl TypeError"
    by (simp add: mbti_of_def)
  have "POST ?rt (Inr (JObj [(ascii ''concern'', JNum (Finite 5))])) =
      \<lparr>result = Inl TypeError, calls = [], logged = []\<rparr>"
    using sample_key [of "Inl TypeError"] m1 c1 by (simp add: POST_def threw_def)
  moreover have "POST ?rt (Inr (JObj [(ascii ''mbti'', JNum (Finite 5))])) =
      \<lparr>result = Inl TypeError, calls = [], logged = []\<rparr>"
    using sample_key [of "Inl TypeError"] m2 by (simp add: POST_def threw_def)
  ultimately show ?thesis
    using a by (simp add: endpoint_loaded [OF sample_loaded])
qed

subsection \<open>Exceptions that leave the handler\<close>

text \<open>
  Claim C3. The claim says that no failure leaves the handler as an exception, also for
  bodies that parse to \<^verbatim>\<open>null\<close>. The handler does not keep it: lines 71 and 72 stand between
  the two \<^verbatim>\<open>try\<close> blocks, so with the credential configured every body that is \<^verbatim>\<open>null\<close>, or
  holds under \<^verbatim>\<open>mbti\<close> or \<^verbatim>\<open>concern\<close> something other than \<^verbatim>\<open>null\<close> or a string, ends the
  handler with a TypeError and without a response.
\<close>

theorem untrimmable_payload_escapes:
  assumes key: "\<not> key_missing rt" and bad: "\<not> payload_ok payload"
  shows "POST rt (Inr payload) = \<lparr>result = Inl TypeError, calls = [], logged = []\<rparr>"
proof (cases "payload = JNull")
  case True
  with key show ?thesis by (simp add: POST_def mbti_of_def threw_def)
next
  case False
  note g = get_prop_opt_prop [OF False]
  show ?thesis
  proof (cases "trimmable (opt_prop (Some payload) (ascii ''mbti''))")
    case False
    from not_trimmable_opt_trim [OF False] key show ?thesis
      by (simp add: POST_def mbti_of_def g threw_def)
  next
    case True
    from trimmable_opt_trim [OF True] obtain t where
      t: "opt_trim (opt_prop (Some payload) (ascii ''mbti'')) = Inr t" ..
    then obtain m where m: "mbti_of (unicode_upper rt) payload = Inr m"
      by (cases t) (simp_all add: mbti_of_def g)
    from True bad \<open>payload \<noteq> JNull\<close>
    have "\<not> trimmable (opt_prop (Some payload) (ascii ''concern''))"
      by (simp add: payload_ok_def)
    from not_trimmable_opt_trim [OF this] have "concern_of payload = Inl TypeError"
      by (simp add: concern_of_def g)
    with key m show ?thesis by (simp add: POST_def threw_def)
  qed
qed

theorem untrimmable_payload_escapes_witness:
  "\<not> key_missing (sample_runtime (Some (ascii ''sk'')) (Inl TypeError)) \<and> \<not> payload_ok JNull \<and>
   POST (sample_runtime (Some (ascii ''sk'')) (Inl TypeError)) (Inr JNull) =
     \<lparr>result = Inl TypeError, calls = [], logged = []\<rparr>"
proof -
  have b: "\<not> payload_ok JNull" by (simp add: payload_ok_def)
  from sample_key b untrimmable_payload_escapes [OF sample_key b] show ?thesis by simp
qed

subsection \<open>The shape of the response\<close>

text \<open>Every response of the handler has one of two shapes.\<close>

lemma POST_response_shape:
  assumes "result (POST rt request_json) = Inr r"
  shows "(status r = 200 \<and>
         (\<exists>req completion message parsed.
            calls (POST rt request_json) = [req] \<and>
            completions_create rt req = Inr completion \<and>
            message_content completion = Inr message \<and>
            JSON_parse rt (rawContent_of message) = Inr parsed \<and>
            body r = serialise parsed))
      \<or> ((status r = 400 \<or> status r = 500) \<and> is_error_body (body r))"
proof (cases "key_missing rt")
  case True
  from POST_missing_key [OF this] assms show ?thesis
    by (auto simp: error_body_def)
next
  case key: False
  show ?thesis
  proof (cases request_json)
    case (Inl e)
    with key assms show ?thesis
      by (auto simp: POST_def responded_def NextResponse_json_def serialise_error_body
          error_body_def)
  next
    case rq: (Inr payload)
    show ?thesis
    proof (cases "mbti_of (unicode_upper rt) payload")
      case (Inl e)
      with key rq assms show ?thesis
        by (simp add: POST_def threw_def)
    next
      case m: (Inr m)
      show ?thesis
      proof (cases "concern_of payload")
        case (Inl e)
        with key rq m assms show ?thesis
          by (simp add: POST_def threw_def)
      next
        case c: (Inr c)
        show ?thesis
        proof (cases "m = [] \<or> \<not> mbtiPattern_test m")
          case True
          with key rq m c assms show ?thesis
            by (auto simp: POST_def responded_def NextResponse_json_def serialise_error_body
                error_body_def)
        next
          case False
          then have v: "m \<noteq> []" "mbtiPattern_test m" by simp_all
          note P = POST_accepts [OF key m c v]
          show ?thesis
          proof (cases "generate rt (chat_request_of m c)")
            case (Inl err)
            with P rq assms show ?thesis
              by (auto simp: error_body_def)
          next
            case (Inr parsed)
            from generate_Inr [OF Inr] obtain completion message where
              "completions_create rt (chat_request_of m c) = Inr completion"
              "message_content completion = Inr message"
              "JSON_parse rt (rawContent_of message) = Inr parsed"
              by blast
            with P rq Inr assms show ?thesis by auto
          qed
        qed
      qed
    qed
  qed
qed

text \<open>The handler responds unless line 71 or 72 throws.\<close>

lemma POST_responds:
  assumes "\<forall>payload. request_json = Inr payload \<longrightarrow> payload_ok payload"
  shows "\<exists>r. result (POST rt request_json) = Inr r"
proof (cases "key_missing rt")
  case True
  from POST_missing_key [OF this] show ?thesis by simp
next
  case key: False
  show ?thesis
  proof (cases request_json)
    case (Inl e)
    with key show ?thesis
      by (simp add: POST_def responded_def)
  next
    case rq: (Inr payload)
    with assms have "payload_ok payload" by simp
    from payload_ok_extract [OF this] obtain m c where
      mc: "mbti_of (unicode_upper rt) payload = Inr m" "concern_of payload = Inr c"
      by blast
    show ?thesis
    proof (cases "m = [] \<or> \<not> mbtiPattern_test m")
      case True
      with key mc rq show ?thesis
        by (auto simp: POST_def responded_def)
    next
      case False
      then have v: "m \<noteq> []" "mbtiPattern_test m" by simp_all
      from POST_accepts [OF key mc v] rq show ?thesis
        by (simp split: sum.splits)
    qed
  qed
qed

text \<open>
  Claim C2, amended. The handler does not check what the model's output parses to, so a
  response with status 200 need not be a fully populated fortune. What holds, for every
  request and every outcome of the completion service: every response of the endpoint is
  either status 200 with the serialisation of the value that \<^verbatim>\<open>JSON.parse\<close> made of the
  normalised content of the one completion it asked for, whatever that value is, or status
  400 or 500 with a body of the shape \<^verbatim>\<open>{ error: string }\<close>. And the endpoint does respond
  whenever the module has loaded and the body is not JSON or parses to a payload on which
  lines 71-72 do not throw.
\<close>

theorem response_is_parsed_value_or_error:
  "(\<forall>r. result (endpoint rt request_json) = Inr r \<longrightarrow>
      (status r = 200 \<and>
         (\<exists>req completion message parsed.
            calls (endpoint rt request_json) = [req] \<and>
            completions_create rt req = Inr completion \<and>
            message_content completion = Inr message \<and>
            JSON_parse rt (rawContent_of message) = Inr parsed \<and>
            body r = serialise parsed))
      \<or> ((status r = 400 \<or> status r = 500) \<and> is_error_body (body r))) \<and>
   (OPENAI_API_KEY_at_load rt \<noteq> None \<and>
    (\<forall>payload. request_json = Inr payload \<longrightarrow> payload_ok payload) \<longrightarrow>
      (\<exists>r. result (endpoint rt request_json) = Inr r))"
proof (cases "OPENAI_API_KEY_at_load rt")
  case None
  then show ?thesis
    by (simp add: endpoint_def new_OpenAI_def threw_def)
next
  case (Some k)
  then have e: "endpoint rt request_json = POST rt request_json"
    by (simp add: endpoint_loaded)
  show ?thesis
    unfolding e using POST_response_shape [of rt request_json] POST_responds [of request_json rt]
    by blast
qed

theorem response_is_parsed_value_or_error_witness:
  "OPENAI_API_KEY_at_load (sample_runtime (Some (ascii ''sk'')) (Inl (Error []))) \<noteq> None \<and>
   payload_ok sample_payload \<and>
   result (endpoint (sample_runtime (Some (ascii ''sk'')) (Inl (Error []))) (Inr sample_payload))
     = Inr \<lparr>status = 500, body = error_body MSG_GENERIC\<rparr> \<and>
   is_error_body (error_body MSG_GENERIC)"
proof -
  let ?rt = "sample_runtime (Some (ascii ''sk'')) (Inl (Error []))"
  let ?r = "\<lparr>status = 500, body = error_body MSG_GENERIC\<rparr>"
  have g: "generate ?rt (chat_request_of (ascii ''INTJ'') []) = Inl (Error [])"
    by (simp add: generate_def sample_service)
  with POST_accepts [OF sample_key sample_payload_fields INTJ_valid]
  have r: "result (endpoint ?rt (Inr sample_payload)) = Inr ?r"
    by (simp add: endpoint_loaded [OF sample_loaded])
  have "\<forall>payload. (Inr sample_payload :: js_error + json) = Inr payload \<longrightarrow> payload_ok payload"
    by (simp add: sample_payload_ok)
  with response_is_parsed_value_or_error [of ?rt "Inr sample_payload"] sample_loaded r
  have "is_error_body (body ?r)"
    by auto
  with sample_loaded sample_payload_ok r show ?thesis by simp
qed

text \<open>
  The claim as written, refuted: the model answers \<^verbatim>\<open>{}\<close>, and the handler returns the empty
  object with status 200. It is neither a populated fortune nor an error body.
\<close>

theorem unchecked_model_output_returned:
  "result (POST (sample_runtime (Some (ascii ''sk'')) (Inr (completion_with (JStr (ascii ''{}'')))))
                (Inr sample_payload))
     = Inr \<lparr>status = 200, body = JObj []\<rparr> \<and>
   \<not> is_FortuneResponse (JObj []) \<and> \<not> is_error_body (JObj [])"
proof -
  let ?rt = "sample_runtime (Some (ascii ''sk'')) (Inr (completion_with (JStr (ascii ''{}''))))"
  have ne: "ascii ''{}'' \<noteq> []"
    by (simp add: ascii_def)
  have "generate ?rt (chat_request_of (ascii ''INTJ'') []) = Inr (JObj [])"
    by (simp add: generate_def sample_service completion_with_content sample_parse_braces ne)
  with POST_accepts [OF sample_key sample_payload_fields INTJ_valid]
  show ?thesis by simp
qed

subsection \<open>Normalising the content\<close>

text \<open>
  Claim C4, amended. Content that is a string is used as it is. Of content that is a
  sequence of blocks, every block gives one segment, its text or, when it has no
  extractable text, the empty string, and the segments are joined by newlines. So a block
  without text is not skipped: its separator stays. The result is the specification's
  skipping concatenation whenever every block has extractable text.
\<close>

theorem content_normalisation:
  "rawContent_of (Some (JStr s)) = s \<and>
   rawContent_of (Some (JArr blocks)) =
     join [0x000A] (map (\<lambda>b. if has_text b then block_text b else []) blocks) \<and>
   (list_all has_text blocks \<longrightarrow>
      rawContent_of (Some (JArr blocks)) = spec_normalize (Some (JArr blocks)))"
proof -
  have e: "\<not> has_text b \<Longrightarrow> block_text b = []" for b
    by (cases b) (auto split: option.splits json.splits)
  have m: "map block_text blocks = map (\<lambda>b. if has_text b then block_text b else []) blocks"
    by (rule map_cong) (simp_all add: e)
  have f: "list_all has_text blocks \<Longrightarrow> filter has_text blocks = blocks"
    by (simp add: list_all_iff)
  have "rawContent_of (Some (JArr blocks)) =
      join [0x000A] (map (\<lambda>b. if has_text b then block_text b else []) blocks)"
    by (simp only: rawContent_of.simps m)
  moreover have "list_all has_text blocks \<longrightarrow>
      rawContent_of (Some (JArr blocks)) = spec_normalize (Some (JArr blocks))"
    by (simp add: f)
  ultimately show ?thesis by simp
qed

theorem content_normalisation_witness:
  "list_all has_text
     [JObj [(ascii ''text'', JStr (ascii ''{''))], JObj [(ascii ''text'', JStr (ascii ''}''))]] \<and>
   rawContent_of (Some (JArr
     [JObj [(ascii ''text'', JStr (ascii ''{''))], JObj [(ascii ''text'', JStr (ascii ''}''))]]))
     = [0x007B, 0x000A, 0x007D] \<and>
   spec_normalize (Some (JArr
     [JObj [(ascii ''text'', JStr (ascii ''{''))], JObj [(ascii ''text'', JStr (ascii ''}''))]]))
     = [0x007B, 0x000A, 0x007D]"
  using content_normalisation [of "[]"
      "[JObj [(ascii ''text'', JStr (ascii ''{''))], JObj [(ascii ''text'', JStr (ascii ''}''))]]"]
  by (simp add: ascii_def)

text \<open>
  The claim as written, refuted: of three blocks the middle one has no text. The handler
  forms a string with two newlines between the texts; skipping the block gives one.
\<close>

theorem textless_block_not_skipped:
  "rawContent_of (Some (JArr [JObj [(ascii ''text'', JStr (ascii ''a''))], JObj [],
                                JObj [(ascii ''text'', JStr (ascii ''b''))]]))
     = [0x0061, 0x000A, 0x000A, 0x0062] \<and>
   spec_normalize (Some (JArr [JObj [(ascii ''text'', JStr (ascii ''a''))], JObj [],
                                JObj [(ascii ''text'', JStr (ascii ''b''))]]))
     = [0x0061, 0x000A, 0x0062]"
  by (simp add: ascii_def)

subsection \<open>Relaying the model's output\<close>









text \<open>
  Claim C7. For a valid request, when the content of the completion, once normalised, is
  the empty string or does not parse as JSON, the handler answers with status 500 and one
  fixed message in the \<^verbatim>\<open>{ error }\<close> body: the response is the same constant whatever the
  model wrote and whatever was thrown.
\<close>

theorem unusable_content_is_generic_error:
  assumes "\<not> key_missing rt"
    and "mbti_of (unicode_upper rt) payload = Inr m" "m \<noteq> []" "mbtiPattern_test m"
    and "concern_of payload = Inr c"
    and "completions_create rt (chat_request_of m c) = Inr completion"
    and "message_content completion = Inr message"
    and "rawContent_of message = [] \<or> (\<exists>e. JSON_parse rt (rawContent_of message) = Inl e)"
  shows "result (POST rt (Inr payload)) = Inr \<lparr>status = 500, body = error_body MSG_GENERIC\<rparr>
         \<and> calls (POST rt (Inr payload)) = [chat_request_of m c] \<and> is_server_error 500"
proof -
  have "\<exists>e. generate rt (chat_request_of m c) = Inl e"
    using assms(6-8) by (cases "rawContent_of message = []") (auto simp: generate_def)
  then obtain e where "generate rt (chat_request_of m c) = Inl e" ..
  with POST_accepts [OF assms(1,2,5,3,4)] show ?thesis
    by (simp add: is_server_error_def)
qed

theorem unusable_content_is_generic_error_witness:
  "rawContent_of (Some (JStr (ascii ''oops''))) \<noteq> [] \<and>
   JSON_parse (sample_runtime (Some (ascii ''sk'')) (Inr (completion_with (JStr (ascii ''oops'')))))
     (rawContent_of (Some (JStr (ascii ''oops'')))) = Inl SyntaxError \<and>
   result (POST (sample_runtime (Some (ascii ''sk'')) (Inr (completion_with (JStr (ascii ''oops'')))))
                (Inr sample_payload))
     = Inr \<lparr>status = 500, body = error_body MSG_GENERIC\<rparr>"
proof -
  let ?rt = "sample_runtime (Some (ascii ''sk'')) (Inr (completion_with (JStr (ascii ''oops''))))"
  have ne: "rawContent_of (Some (JStr (ascii ''oops''))) \<noteq> []"
    by (simp add: ascii_def)
  have p: "JSON_parse ?rt (rawContent_of (Some (JStr (ascii ''oops'')))) = Inl SyntaxError"
    by (simp add: sample_parse_oops)
  then have "rawContent_of (Some (JStr (ascii ''oops''))) = [] \<or>
      (\<exists>e. JSON_parse ?rt (rawContent_of (Some (JStr (ascii ''oops'')))) = Inl e)"
    by blast
  from unusable_content_is_generic_error [OF sample_key sample_payload_fields(1) INTJ_valid
      sample_payload_fields(2) sample_service completion_with_content this] ne p
  show ?thesis by simp
qed

section \<open>Properties of the page\<close>

subsection \<open>Auxiliary facts\<close>

lemma includes_str_sublist: "includes_str s t \<longleftrightarrow> sublist t s"
  by (induction s) (simp_all add: sublist_Cons_right)

lemma sublist_single: "sublist [c] xs \<longleftrightarrow> c \<in> set xs"
  by (induction xs) (simp_all add: sublist_Cons_right)

lemma set_dropWhile_keep: "\<not> P c \<Longrightarrow> c \<in> set (dropWhile P xs) \<longleftrightarrow> c \<in> set xs"
  by (induction xs) auto

text \<open>Trimming removes white space only, so it keeps every other code unit.\<close>

lemma set_trim_keep: "\<not> is_ws c \<Longrightarrow> c \<in> set (trim s) \<longleftrightarrow> c \<in> set s"
  by (simp add: trim_def set_dropWhile_keep)

lemma marks_not_ws: "\<not> is_ws 0xB192" "\<not> is_ws 0xB0AE"
  by (simp_all add: is_ws_def)

text \<open>A string that matches the pattern is already trimmed and in upper case.\<close>

lemma mbtiPattern_shape:
  assumes "mbtiPattern_test t"
  obtains a b c d where "t = [a, b, c, d]"
    "a = 0x0049 \<or> a = 0x0045" "b = 0x004E \<or> b = 0x0053"
    "c = 0x0054 \<or> c = 0x0046" "d = 0x004A \<or> d = 0x0050"
  using assms by (elim mbtiPattern_test.elims(2)) simp

lemma matching_is_normal:
  assumes "mbtiPattern_test t"
  shows "trim t = t" "toUpperCase up t = t" "t \<noteq> []"
proof -
  from assms obtain a b c d where t: "t = [a, b, c, d]"
    and l: "a = 0x0049 \<or> a = 0x0045" "b = 0x004E \<or> b = 0x0053"
      "c = 0x0054 \<or> c = 0x0046" "d = 0x004A \<or> d = 0x0050"
    by (rule mbtiPattern_shape)
  from l have "\<not> is_ws a" "\<not> is_ws d"
    by (auto simp: is_ws_def)
  then show "trim t = t"
    by (simp add: t trim_def)
  from l have "is_ascii a" "is_ascii b" "is_ascii c" "is_ascii d"
    by (auto simp: is_ascii_def)
  moreover from l have "ascii_upper a = a" "ascii_upper b = b" "ascii_upper c = c"
    "ascii_upper d = d"
    by (auto simp: ascii_upper_def)
  ultimately show "toUpperCase up t = t"
    by (simp add: t toUpperCase_def)
  show "t \<noteq> []"
    by (simp add: t)
qed

lemma MBTI_TYPES_eval:
  "MBTI_TYPES =
     [[0x49, 0x4E, 0x54, 0x4A], [0x49, 0x4E, 0x54, 0x50], [0x45, 0x4E, 0x54, 0x4A],
      [0x45, 0x4E, 0x54, 0x50], [0x49, 0x4E, 0x46, 0x4A], [0x49, 0x4E, 0x46, 0x50],
      [0x45, 0x4E, 0x46, 0x4A], [0x45, 0x4E, 0x46, 0x50], [0x49, 0x53, 0x54, 0x4A],
      [0x49, 0x53, 0x46, 0x4A], [0x45, 0x53, 0x54, 0x4A], [0x45, 0x53, 0x46, 0x4A],
      [0x49, 0x53, 0x54, 0x50], [0x49, 0x53, 0x46, 0x50], [0x45, 0x53, 0x54, 0x50],
      [0x45, 0x53, 0x46, 0x50]]"
  by (simp add: MBTI_TYPES_def ascii_def)

lemma MBTI_TYPES_all_match: "list_all mbtiPattern_test MBTI_TYPES"
  unfolding MBTI_TYPES_eval by simp

lemma MBTI_TYPES_match: "t \<in> set MBTI_TYPES \<Longrightarrow> mbtiPattern_test t"
  using MBTI_TYPES_all_match by (simp add: list_all_iff)

lemma INTJ_in_MBTI_TYPES: "ascii ''INTJ'' \<in> set MBTI_TYPES"
  by (simp add: MBTI_TYPES_def)

text \<open>Submitting never touches the selected type.\<close>

lemma handleSubmit_mbti: "mbti (fst (handleSubmit br s)) = mbti s"
  by (simp add: handleSubmit_def Let_def split: sum.splits)

lemma reachable_mbti: "reachable s \<Longrightarrow> mbti s = [] \<or> mbti s \<in> set MBTI_TYPES"
proof (induction rule: reachable.induct)
  case initial
  show ?case by (simp add: initial_state_def)
next
  case (select_mbti s v)
  then show ?case by auto
next
  case (submit s br)
  then show ?case by (simp add: handleSubmit_mbti)
qed simp_all

lemma request_body_fields:
  "mbti_of up (request_body s) = Inr (toUpperCase up (trim (mbti s)))"
  "concern_of (request_body s) = Inr (trim (concern s))"
  by (simp_all add: request_body_def mbti_of_def concern_of_def ascii_def)

text \<open>A submission that succeeds does overwrite the result and the time.\<close>

lemma handleSubmit_success:
  assumes "mbti s \<noteq> []" "fetch br (request_body s) = Response True (Some v)" "truthy v"
  shows "handleSubmit br s =
    (s\<lparr>fortune := Some v, lastUpdated := clock br, error := None, isLoading := False\<rparr>,
     [request_body s])"
  using assms by (simp add: handleSubmit_def request_outcome_def Let_def)

text \<open>The result or the time changes only when the response is a success with a payload.\<close>

lemma handleSubmit_changes_only_on_success:
  assumes "fortune (fst (handleSubmit br s)) \<noteq> fortune s
           \<or> lastUpdated (fst (handleSubmit br s)) \<noteq> lastUpdated s"
  shows "\<exists>v. fetch br (request_body s) = Response True (Some v) \<and> truthy v \<and> mbti s \<noteq> []"
  using assms
  by (auto simp: handleSubmit_def request_outcome_def Let_def
      split: if_splits sum.splits fetch_outcome.splits option.splits)

subsection \<open>The energy tone\<close>

text \<open>
  Claim C8. The tone is a function of the \<^verbatim>\<open>energyLevel\<close> string of the current result
  alone: high when the string contains the "high" marker, else low when it contains the
  "low" marker, else mid; and with no result there is no tone.
\<close>

theorem energyTone_by_marker:
  assumes "get_prop f (ascii ''energyLevel'') = Inr (Some (JStr level))"
  shows "energyTone (Some f) =
           Inr (Some (if sublist HIGH_MARK level then High
                      else if sublist LOW_MARK level then Low else Mid))
         \<and> energyTone None = Inr None"
proof -
  from assms obtain ps where f: "f = JObj ps"
    by (cases f) simp_all
  have h: "includes_str (trim level) HIGH_MARK \<longleftrightarrow> sublist HIGH_MARK level"
    by (simp add: includes_str_sublist HIGH_MARK_def sublist_single set_trim_keep marks_not_ws)
  have l: "includes_str (trim level) LOW_MARK \<longleftrightarrow> sublist LOW_MARK level"
    by (simp add: includes_str_sublist LOW_MARK_def sublist_single set_trim_keep marks_not_ws)
  show ?thesis using assms f
    by (simp add: energyTone_def Let_def h l)
qed

theorem energyTone_by_marker_witness:
  "get_prop (JObj [(ascii ''energyLevel'', JStr [0x0020, 0xB0AE, 0xC74C])]) (ascii ''energyLevel'')
     = Inr (Some (JStr [0x0020, 0xB0AE, 0xC74C])) \<and>
   energyTone (Some (JObj [(ascii ''energyLevel'', JStr [0x0020, 0xB0AE, 0xC74C])]))
     = Inr (Some Low)"
proof -
  have g: "get_prop (JObj [(ascii ''energyLevel'', JStr [0x0020, 0xB0AE, 0xC74C])])
      (ascii ''energyLevel'') = Inr (Some (JStr [0x0020, 0xB0AE, 0xC74C]))"
    by simp
  from g energyTone_by_marker [OF g] show ?thesis
    by (simp add: HIGH_MARK_def LOW_MARK_def sublist_single)
qed

subsection \<open>Failed submissions\<close>

text \<open>
  Claim C9. A submission that fails, because \<^verbatim>\<open>fetch\<close> rejects, or the response has a
  status that is not a success, or its body is not JSON, leaves the stored result and the
  "last updated" text as they were and sets the error slot; the selected type and the
  concern stay as well. The stored result changes only when the response is a success
  with a payload, and then to that payload.
\<close>

theorem failed_submission_keeps_result:
  "(((\<exists>e. fetch br (request_body s) = Rejected e) \<or>
     (\<exists>ok parsed. fetch br (request_body s) = Response ok parsed \<and> (\<not> ok \<or> parsed = None)))
      \<longrightarrow>
        fortune (fst (handleSubmit br s)) = fortune s \<and>
        lastUpdated (fst (handleSubmit br s)) = lastUpdated s \<and>
        error (fst (handleSubmit br s)) \<noteq> None \<and>
        mbti (fst (handleSubmit br s)) = mbti s \<and>
        concern (fst (handleSubmit br s)) = concern s) \<and>
   (fortune (fst (handleSubmit br s)) \<noteq> fortune s \<longrightarrow>
      (\<exists>v. fetch br (request_body s) = Response True (Some v) \<and>
           fortune (fst (handleSubmit br s)) = Some v))"
proof (intro conjI impI)
  assume "(\<exists>e. fetch br (request_body s) = Rejected e) \<or>
     (\<exists>ok parsed. fetch br (request_body s) = Response ok parsed \<and> (\<not> ok \<or> parsed = None))"
  then have "\<exists>e. request_outcome br (request_body s) = Inl e"
    by (auto simp: request_outcome_def)
  then obtain e where e: "request_outcome br (request_body s) = Inl e" ..
  show "fortune (fst (handleSubmit br s)) = fortune s"
    "lastUpdated (fst (handleSubmit br s)) = lastUpdated s"
    "error (fst (handleSubmit br s)) \<noteq> None"
    "mbti (fst (handleSubmit br s)) = mbti s"
    "concern (fst (handleSubmit br s)) = concern s"
    using e by (simp_all add: handleSubmit_def Let_def)
next
  assume "fortune (fst (handleSubmit br s)) \<noteq> fortune s"
  then show "\<exists>v. fetch br (request_body s) = Response True (Some v) \<and>
      fortune (fst (handleSubmit br s)) = Some v"
    by (auto simp: handleSubmit_def request_outcome_def Let_def
        split: if_splits sum.splits fetch_outcome.splits option.splits)
qed

theorem failed_submission_keeps_result_witness:
  "fetch (sample_browser (Response False (Some (error_body MSG_GENERIC)))) (request_body sample_state)
     = Response False (Some (error_body MSG_GENERIC)) \<and>
   fortune (fst (handleSubmit (sample_browser (Response False (Some (error_body MSG_GENERIC))))
                  sample_state)) = Some sample_fortune \<and>
   lastUpdated (fst (handleSubmit (sample_browser (Response False (Some (error_body MSG_GENERIC))))
                  sample_state)) = ascii ''09:00'' \<and>
   fortune (fst (handleSubmit (sample_browser (Response True (Some (JObj []))))
                  sample_state)) \<noteq> fortune sample_state \<and>
   fetch (sample_browser (Response True (Some (JObj [])))) (request_body sample_state)
     = Response True (Some (JObj []))"
proof -
  let ?br = "sample_browser (Response False (Some (error_body MSG_GENERIC)))"
  let ?ok = "sample_browser (Response True (Some (JObj [])))"
  have f: "fetch ?br (request_body sample_state) = Response False (Some (error_body MSG_GENERIC))"
    by (simp add: sample_browser_def)
  then have "(\<exists>e. fetch ?br (request_body sample_state) = Rejected e) \<or>
      (\<exists>ok parsed. fetch ?br (request_body sample_state) = Response ok parsed
         \<and> (\<not> ok \<or> parsed = None))"
    by blast
  with failed_submission_keeps_result [of ?br sample_state]
  have keep: "fortune (fst (handleSubmit ?br sample_state)) = fortune sample_state"
    "lastUpdated (fst (handleSubmit ?br sample_state)) = lastUpdated sample_state"
    by blast+
  have g: "fetch ?ok (request_body sample_state) = Response True (Some (JObj []))"
    by (simp add: sample_browser_def)
  have "handleSubmit ?ok sample_state =
      (sample_state\<lparr>fortune := Some (JObj []), lastUpdated := clock ?ok, error := None,
         isLoading := False\<rparr>, [request_body sample_state])"
    by (rule handleSubmit_success [OF _ g]) (simp_all add: sample_state_def INTJ_valid)
  then have changed: "fortune (fst (handleSubmit ?ok sample_state)) \<noteq> fortune sample_state"
    by (simp add: sample_state_def sample_fortune_def)
  with failed_submission_keeps_result [of ?ok sample_state]
  have "\<exists>v. fetch ?ok (request_body sample_state) = Response True (Some v)"
    by blast
  with keep f g changed show ?thesis
    by (simp add: sample_state_def)
qed

subsection \<open>What the page sends\<close>

text \<open>
  Claim C10. In every state the page can reach, the selected type is the empty string or
  one of the 16 codes of \<open>MBTI_TYPES\<close>; so every body the page posts passes the endpoint's
  validation: with the credential configured, the endpoint calls the completion service
  with that very code and answers 200 or 500, never the 400 of the validation.
\<close>

theorem selected_type_passes_validation:
  assumes "reachable s"
  shows "(mbti s = [] \<or> mbti s \<in> set MBTI_TYPES) \<and>
         (\<forall>b \<in> set (snd (handleSubmit br s)). \<forall>rt. \<not> key_missing rt \<longrightarrow>
            calls (POST rt (Inr b)) = [chat_request_of (mbti s) (trim (concern s))] \<and>
            (\<exists>r. result (POST rt (Inr b)) = Inr r \<and> (status r = 200 \<or> status r = 500)))"
proof (intro conjI ballI allI impI)
  show inv: "mbti s = [] \<or> mbti s \<in> set MBTI_TYPES"
    using assms by (rule reachable_mbti)
  fix b rt
  assume b: "b \<in> set (snd (handleSubmit br s))" and key: "\<not> key_missing rt"
  from b have ne: "mbti s \<noteq> []" and b_def: "b = request_body s"
    by (auto simp: handleSubmit_def Let_def split: if_splits)
  with inv have "mbtiPattern_test (mbti s)"
    by (simp add: MBTI_TYPES_match)
  note n = matching_is_normal [OF this] this
  have m: "mbti_of (unicode_upper rt) b = Inr (mbti s)"
    and c: "concern_of b = Inr (trim (concern s))"
    by (simp_all add: b_def request_body_fields n)
  note P = POST_accepts [OF key m c n(3,4)]
  show "calls (POST rt (Inr b)) = [chat_request_of (mbti s) (trim (concern s))]"
    using P by (simp split: sum.splits)
  show "\<exists>r. result (POST rt (Inr b)) = Inr r \<and> (status r = 200 \<or> status r = 500)"
    using P by (simp split: sum.splits)
qed

theorem selected_type_passes_validation_witness:
  "reachable (initial_state\<lparr>mbti := ascii ''INTJ''\<rparr>) \<and>
   request_body (initial_state\<lparr>mbti := ascii ''INTJ''\<rparr>)
     \<in> set (snd (handleSubmit (sample_browser (Rejected NotAnError))
                   (initial_state\<lparr>mbti := ascii ''INTJ''\<rparr>))) \<and>
   \<not> key_missing (sample_runtime (Some (ascii ''sk'')) (Inl TypeError)) \<and>
   calls (POST (sample_runtime (Some (ascii ''sk'')) (Inl TypeError))
               (Inr (request_body (initial_state\<lparr>mbti := ascii ''INTJ''\<rparr>))))
     = [chat_request_of (ascii ''INTJ'') []]"
proof -
  let ?s = "initial_state\<lparr>mbti := ascii ''INTJ''\<rparr>"
  let ?br = "sample_browser (Rejected NotAnError)"
  have r: "reachable ?s"
    by (rule reachable.select_mbti [OF reachable.initial]) (simp add: INTJ_in_MBTI_TYPES)
  have b: "request_body ?s \<in> set (snd (handleSubmit ?br ?s))"
    by (simp add: handleSubmit_def Let_def INTJ_valid)
  have t: "trim (concern ?s) = []"
    by (simp add: initial_state_def trim_def)
  from selected_type_passes_validation [OF r, of ?br] b sample_key [of "Inl TypeError"]
  have "calls (POST (sample_runtime (Some (ascii ''sk'')) (Inl TypeError)) (Inr (request_body ?s)))
      = [chat_request_of (mbti ?s) (trim (concern ?s))]"
    by blast
  with r b sample_key t show ?thesis by simp
qed

end
